theory Spec2Isabelle
  imports Main
begin

section \<open>JavaScript values used by the services\<close>

text \<open>
  Strings are lists of characters. A timestamp (\<^verbatim>\<open>Date\<close>) is its number of
  milliseconds since the epoch, an \<open>int\<close>; a nullable column or an optional field is an
  \<open>option\<close>. One request reads the clock once: every \<^verbatim>\<open>new Date()\<close> and
  \<^verbatim>\<open>Date.now()\<close> of a request is the field \<open>now\<close> of its environment.
\<close>

text \<open>White space as \<^verbatim>\<open>String.prototype.trim\<close> and \<^verbatim>\<open>parseInt\<close> see it, for the
  characters below 256: tab, line feed, vertical tab, form feed, carriage return, space
  and the no-break space.\<close>

definition is_ws :: "char \<Rightarrow> bool" where
  "is_ws c = (of_char c \<in> {9, 10, 11, 12, 13, 32, 160 :: nat})"

definition trim :: "string \<Rightarrow> string" where
  "trim s = rev (dropWhile is_ws (rev (dropWhile is_ws s)))"

text \<open>Truthiness of a string, and of an optional string (\<^verbatim>\<open>undefined\<close> is falsy).\<close>

definition truthy :: "string \<Rightarrow> bool" where
  "truthy s = (s \<noteq> [])"

definition truthy_opt :: "string option \<Rightarrow> bool" where
  "truthy_opt v = (case v of None \<Rightarrow> False | Some s \<Rightarrow> truthy s)"

section \<open>Entities\<close>

text \<open>
  The rows of the two tables. The field \<open>k_x\<close> is the column \<^verbatim>\<open>x\<close> of
  \<^verbatim>\<open>ApiKey\<close>, the field \<open>sa_x\<close> the column \<^verbatim>\<open>x\<close> of \<^verbatim>\<open>SaInfo\<close>.
\<close>

record sa_info =
  sa_id :: string
  sa_user_id :: int
  sa_client_secret :: string
  sa_description :: "string option"
  sa_created_at :: int
  sa_created_by :: "string option"
  sa_updated_at :: int
  sa_updated_by :: "string option"
  sa_deleted_at :: "int option"
  sa_deleted_by :: "string option"

record api_key =
  k_id :: int
  k_client_id :: string
  k_api_key :: string
  k_name :: string
  k_description :: "string option"
  k_is_active :: bool
  k_expiry_date :: "int option"
  k_created_at :: int
  k_created_by :: "string option"
  k_updated_at :: int
  k_updated_by :: "string option"
  k_deleted_at :: "int option"
  k_deleted_by :: "string option"

datatype key_status = Active | Inactive | Expired | Deleted

section \<open>The credential store and the environment\<close>

text \<open>
  The store is the two tables, in insertion order. \<^verbatim>\<open>deleted_at\<close> is a column like
  the others: a lookup returns soft-deleted rows unless its \<^verbatim>\<open>where\<close> excludes them
  (\<^verbatim>\<open>removeKey\<close> tests the \<^verbatim>\<open>deleted_at\<close> of the row it found). The store
  refuses a key id that is not a number or that its id column cannot hold, and an offset
  that is not finite or that it cannot hold; the query builder refuses a sort direction
  other than \<^verbatim>\<open>ASC\<close> and \<^verbatim>\<open>DESC\<close> and a \<^verbatim>\<open>skip\<close> or \<^verbatim>\<open>take\<close> that is \<^verbatim>\<open>NaN\<close>.
  These errors reach the \<^verbatim>\<open>catch\<close> of the operation. The store does not fail
  otherwise, and logging is left out.

  Every repository call and every draw of random bytes is recorded in \<open>io_log\<close>, in
  the order the code makes them, and \<open>draws\<close> counts the draws, so that "no read
  happens" and "three attempts" are statements about the state.
\<close>

datatype io_event =
    RandomBytes
  | SaFindOne
  | SaSave
  | KeyFindOneById
  | KeyFindOneByValue
  | KeyFindActive
  | KeySave
  | KeyUpdate
  | KeyGetCount
  | KeyGetMany

record db =
  sa_rows :: "sa_info list"
  key_rows :: "api_key list"
  next_key_id :: int
  draws :: nat
  uuids :: nat
  io_log :: "io_event list"

text \<open>
  What the services take from outside the repository: the clock, the random source
  (\<open>random_b64 n\<close> is the base64 text of the \<open>n\<close>-th call of
  \<^verbatim>\<open>crypto.randomBytes(32)\<close>), the identifiers the store gives new service accounts,
  the \<^verbatim>\<open>Date\<close> constructor on a string (\<open>None\<close> is the invalid date), the
  store's \<^verbatim>\<open>ILIKE\<close> and \<^verbatim>\<open>ORDER BY\<close>, and the key ids and offsets the store
  accepts.
\<close>

record env =
  now :: int
  random_b64 :: "nat \<Rightarrow> string"
  new_uuid :: "nat \<Rightarrow> string"
  parse_date :: "string \<Rightarrow> int option"
  ilike :: "string \<Rightarrow> string \<Rightarrow> bool"
  order_by :: "string \<Rightarrow> string \<Rightarrow> api_key list \<Rightarrow> api_key list"
  key_id_ok :: "int \<Rightarrow> bool"
  offset_ok :: "int \<Rightarrow> bool"

definition log_io :: "io_event \<Rightarrow> db \<Rightarrow> db" where
  "log_io e st = st\<lparr>io_log := io_log st @ [e]\<rparr>"

section \<open>KeyValidationService\<close>

record expiration_validation_result =
  ev_isValid :: bool
  ev_reason :: string

record key_info =
  ki_id :: string
  ki_userId :: string
  ki_expiresAt :: "int option"
  ki_status :: key_status

record validation_result =
  vr_isValid :: bool
  vr_reason :: "string option"
  vr_statusCode :: int
  vr_timestamp :: int
  vr_keyInfo :: "key_info option"

text \<open>\<^verbatim>\<open>validateExpiration\<close>: no expiry is valid, an expiry at or before now is not.\<close>

definition validateExpiration :: "env \<Rightarrow> int option \<Rightarrow> expiration_validation_result" where
  "validateExpiration e expiresAt =
     (case expiresAt of
        None \<Rightarrow> \<lparr>ev_isValid = True, ev_reason = ''NO_EXPIRY''\<rparr>
      | Some t \<Rightarrow>
          if t \<le> now e then \<lparr>ev_isValid = False, ev_reason = ''KEY_EXPIRED''\<rparr>
          else \<lparr>ev_isValid = True, ev_reason = ''NOT_EXPIRED''\<rparr>)"

text \<open>\<^verbatim>\<open>createFailureResult(reason, message, statusCode, startTime?)\<close>; the message is
  not modelled.\<close>

definition createFailureResult :: "env \<Rightarrow> string \<Rightarrow> int \<Rightarrow> validation_result" where
  "createFailureResult e reason statusCode =
     \<lparr>vr_isValid = False, vr_reason = Some reason, vr_statusCode = statusCode,
      vr_timestamp = now e, vr_keyInfo = None\<rparr>"

text \<open>\<^verbatim>\<open>Number.prototype.toString\<close> on an integer (below \<open>10^21\<close> in magnitude, where
  JavaScript prints all digits).\<close>

definition digit_char :: "nat \<Rightarrow> char" where
  "digit_char d = char_of (48 + d)"

fun digits :: "nat \<Rightarrow> string" where
  "digits n = (if n < 10 then [digit_char n] else digits (n div 10) @ [digit_char (n mod 10)])"

declare digits.simps [simp del]

definition toString :: "int \<Rightarrow> string" where
  "toString n = (if n < 0 then CHR ''-'' # digits (nat (- n)) else digits (nat n))"

text \<open>\<^verbatim>\<open>validateApiKey({keyToValidate, clientId})\<close>. The repository's \<^verbatim>\<open>find\<close> returns the
  rows with \<^verbatim>\<open>is_active = true\<close>, of the client when a client id is given; the
  scan takes the first row whose stored key is the presented one. The first failure
  passes \<^verbatim>\<open>startTime\<close> where the status code is expected.\<close>

definition find_active_keys :: "db \<Rightarrow> string option \<Rightarrow> api_key list" where
  "find_active_keys st clientId =
     filter (\<lambda>k. k_is_active k \<and>
                 (case clientId of
                    None \<Rightarrow> True
                  | Some c \<Rightarrow> if truthy c then k_client_id k = c else True))
       (key_rows st)"

definition validateApiKey :: "env \<Rightarrow> db \<Rightarrow> string \<Rightarrow> string option \<Rightarrow> validation_result \<times> db" where
  "validateApiKey e st keyToValidate clientId =
     (let startTime = now e in
      if \<not> truthy (trim keyToValidate) then
        (createFailureResult e ''INVALID_FORMAT'' startTime, st)
      else
        let activeKeys = find_active_keys st clientId;
            st1 = log_io KeyFindActive st
        in case find (\<lambda>record. keyToValidate = k_api_key record) activeKeys of
             None \<Rightarrow> (createFailureResult e ''KEY_NOT_FOUND'' 404, st1)
           | Some keyRecord \<Rightarrow>
               if \<not> k_is_active keyRecord then
                 (createFailureResult e ''KEY_INACTIVE'' 403, st1)
               else
                 let expirationValidation = validateExpiration e (k_expiry_date keyRecord) in
                 if \<not> ev_isValid expirationValidation then
                   (createFailureResult e (ev_reason expirationValidation) 401, st1)
                 else
                   (\<lparr>vr_isValid = True, vr_reason = None, vr_statusCode = 200,
                     vr_timestamp = now e,
                     vr_keyInfo = Some
                       \<lparr>ki_id = toString (k_id keyRecord),
                        ki_userId = k_client_id keyRecord,
                        ki_expiresAt = k_expiry_date keyRecord,
                        ki_status = (if k_is_active keyRecord then Active else Inactive)\<rparr>\<rparr>,
                    st1))"

section \<open>KeyManagerService.validateKey\<close>

datatype http_exception = HttpException (http_status: int) (http_code: string)

record validate_dto =
  vd_client_id :: string
  vd_client_secret :: string
  vd_api_key :: string

record validate_response =
  vs_key_id :: "string option"
  vs_user_id :: int
  vs_client_id :: string
  vs_expires_at :: "int option"
  vs_status :: "key_status option"

text \<open>\<^verbatim>\<open>saInfoRepo.findOne({where: {id, deleted_at: IsNull()}})\<close>.\<close>

definition find_sa_by_id :: "db \<Rightarrow> string \<Rightarrow> sa_info option" where
  "find_sa_by_id st cid = find (\<lambda>a. sa_id a = cid \<and> sa_deleted_at a = None) (sa_rows st)"

definition validateKey :: "env \<Rightarrow> db \<Rightarrow> validate_dto \<Rightarrow> (http_exception + validate_response) \<times> db" where
  "validateKey e st dto =
     (let st1 = log_io SaFindOne st in
      case find_sa_by_id st (vd_client_id dto) of
        None \<Rightarrow> (Inl (HttpException 401 ''INVALID_CLIENT_ID''), st1)
      | Some saInfo \<Rightarrow>
          if sa_client_secret saInfo \<noteq> vd_client_secret dto then
            (Inl (HttpException 401 ''INVALID_CLIENT_SECRET''), st1)
          else
            let (validationResult, st2) =
                  validateApiKey e st1 (vd_api_key dto) (Some (vd_client_id dto))
            in if \<not> vr_isValid validationResult then
                 (Inl (HttpException (vr_statusCode validationResult)
                         (case vr_reason validationResult of None \<Rightarrow> [] | Some r \<Rightarrow> r)), st2)
               else
                 (Inr \<lparr>vs_key_id = map_option ki_id (vr_keyInfo validationResult),
                       vs_user_id = sa_user_id saInfo,
                       vs_client_id = sa_id saInfo,
                       vs_expires_at = Option.bind (vr_keyInfo validationResult) ki_expiresAt,
                       vs_status = map_option ki_status (vr_keyInfo validationResult)\<rparr>, st2))"

section \<open>KeyGenerationService\<close>

record config =
  saltRounds :: nat
  maxRetries :: nat
  keyPrefix :: string
  defaultExpiryDays :: int

definition default_config :: config where
  "default_config = \<lparr>saltRounds = 12, maxRetries = 3, keyPrefix = ''ak_'', defaultExpiryDays = 365\<rparr>"

text \<open>An \<^verbatim>\<open>Error\<close> thrown by the generation service, by its message.\<close>

datatype generation_error =
    ClientIdRequired
  | ExpiryNotInFuture
  | UniqueKeyFailed nat

record key_record_view =
  kv_id :: string
  kv_userId :: string
  kv_createdAt :: int
  kv_expiresAt :: "int option"
  kv_status :: key_status

record unique_key_result =
  uk_rawKey :: string
  uk_keyRecord :: key_record_view

record key_generation_params =
  gp_userId :: string
  gp_name :: string
  gp_description :: "string option"
  gp_isActive :: "bool option"
  gp_expiresAt :: "int option"

record key_generation_result =
  gr_keyId :: string
  gr_rawKey :: string
  gr_userId :: string
  gr_createdAt :: int
  gr_expiresAt :: "int option"
  gr_status :: key_status

text \<open>\<^verbatim>\<open>generateRawKey\<close>: the next 32 random bytes, in base64.\<close>

definition generateRawKey :: "env \<Rightarrow> db \<Rightarrow> string \<times> db" where
  "generateRawKey e st = (random_b64 e (draws st), log_io RandomBytes (st\<lparr>draws := draws st + 1\<rparr>))"

text \<open>\<^verbatim>\<open>checkKeyExists\<close>: a row with this \<^verbatim>\<open>api_key\<close>, deleted or not.\<close>

definition checkKeyExists :: "db \<Rightarrow> string \<Rightarrow> bool \<times> db" where
  "checkKeyExists st apiKey =
     (find (\<lambda>k. k_api_key k = apiKey) (key_rows st) \<noteq> None, log_io KeyFindOneByValue st)"

text \<open>\<^verbatim>\<open>createKeyRecord\<close>: the entity is built and saved; the store numbers the row and
  stamps it. A \<^verbatim>\<open>Date\<close> is always truthy, so the default expiry applies to \<^verbatim>\<open>null\<close>
  only; an empty description is replaced as an absent one is.\<close>

definition createKeyRecord ::
  "env \<Rightarrow> config \<Rightarrow> db \<Rightarrow> string \<Rightarrow> string \<Rightarrow> string \<Rightarrow> string option \<Rightarrow> bool \<Rightarrow> int option
     \<Rightarrow> api_key \<times> db" where
  "createKeyRecord e cfg st apiKey userId name description isActive expiresAt =
     (let saved =
        \<lparr>k_id = next_key_id st,
         k_client_id = userId,
         k_api_key = apiKey,
         k_name = name,
         k_description = Some (case description of
                                 None \<Rightarrow> ''Generated API key for client '' @ userId
                               | Some d \<Rightarrow> if truthy d then d
                                           else ''Generated API key for client '' @ userId),
         k_is_active = isActive,
         k_expiry_date = Some (case expiresAt of
                                 Some t \<Rightarrow> t
                               | None \<Rightarrow> now e + defaultExpiryDays cfg * 24 * 60 * 60 * 1000),
         k_created_at = now e,
         k_created_by = Some ''key-generation-service'',
         k_updated_at = now e,
         k_updated_by = None,
         k_deleted_at = None,
         k_deleted_by = None\<rparr>
      in (saved, log_io KeySave
                   (st\<lparr>key_rows := key_rows st @ [saved], next_key_id := next_key_id st + 1\<rparr>)))"

text \<open>\<^verbatim>\<open>generateUniqueKey\<close>: the \<^verbatim>\<open>while (attempt < maxRetries)\<close> loop, started at
  \<open>attempt = 0\<close>.\<close>

function generateUniqueKey_loop ::
  "env \<Rightarrow> config \<Rightarrow> string \<Rightarrow> string \<Rightarrow> string option \<Rightarrow> bool \<Rightarrow> int option \<Rightarrow> nat \<Rightarrow> db
     \<Rightarrow> (generation_error + unique_key_result) \<times> db" where
  "generateUniqueKey_loop e cfg userId name description isActive expiresAt attempt st =
     (if attempt < maxRetries cfg then
        if \<not> fst (checkKeyExists (snd (generateRawKey e st)) (fst (generateRawKey e st))) then
          (let rawKey = fst (generateRawKey e st);
               st2 = snd (checkKeyExists (snd (generateRawKey e st)) rawKey);
               keyRecord = fst (createKeyRecord e cfg st2 rawKey userId name description isActive expiresAt);
               st3 = snd (createKeyRecord e cfg st2 rawKey userId name description isActive expiresAt)
           in (Inr \<lparr>uk_rawKey = rawKey,
                    uk_keyRecord =
                      \<lparr>kv_id = toString (k_id keyRecord),
                       kv_userId = k_client_id keyRecord,
                       kv_createdAt = k_created_at keyRecord,
                       kv_expiresAt = k_expiry_date keyRecord,
                       kv_status = (if k_is_active keyRecord then Active else Inactive)\<rparr>\<rparr>,
               st3))
        else
          generateUniqueKey_loop e cfg userId name description isActive expiresAt (attempt + 1)
            (snd (checkKeyExists (snd (generateRawKey e st)) (fst (generateRawKey e st))))
      else (Inl (UniqueKeyFailed (maxRetries cfg)), st))"
  by pat_completeness auto
termination
  by (relation "measure (\<lambda>(e, cfg, userId, name, description, isActive, expiresAt, attempt, st).
                           maxRetries cfg - attempt)") auto

declare generateUniqueKey_loop.simps [simp del]

definition generateUniqueKey ::
  "env \<Rightarrow> config \<Rightarrow> db \<Rightarrow> string \<Rightarrow> string \<Rightarrow> string option \<Rightarrow> bool \<Rightarrow> int option
     \<Rightarrow> (generation_error + unique_key_result) \<times> db" where
  "generateUniqueKey e cfg st userId name description isActive expiresAt =
     generateUniqueKey_loop e cfg userId name description isActive expiresAt 0 st"

text \<open>\<^verbatim>\<open>validateGenerationInput\<close>: \<open>None\<close> when nothing is thrown.\<close>

definition validateGenerationInput :: "env \<Rightarrow> string \<Rightarrow> int option \<Rightarrow> generation_error option" where
  "validateGenerationInput e userId expiresAt =
     (if \<not> truthy userId \<or> length (trim userId) = 0 then Some ClientIdRequired
      else case expiresAt of
             None \<Rightarrow> None
           | Some t \<Rightarrow> if t \<le> now e then Some ExpiryNotInFuture else None)"

text \<open>\<^verbatim>\<open>generateApiKey\<close>: validation, then one call of \<^verbatim>\<open>generateUniqueKey\<close>; an
  error of either is thrown on.\<close>

definition generateApiKey ::
  "env \<Rightarrow> config \<Rightarrow> db \<Rightarrow> key_generation_params \<Rightarrow> (generation_error + key_generation_result) \<times> db" where
  "generateApiKey e cfg st params =
     (let isActive = (case gp_isActive params of None \<Rightarrow> True | Some b \<Rightarrow> b) in
      case validateGenerationInput e (gp_userId params) (gp_expiresAt params) of
        Some err \<Rightarrow> (Inl err, st)
      | None \<Rightarrow>
          (case generateUniqueKey e cfg st (gp_userId params) (gp_name params)
                  (gp_description params) isActive (gp_expiresAt params) of
             (Inl err, st1) \<Rightarrow> (Inl err, st1)
           | (Inr result, st1) \<Rightarrow>
               (Inr \<lparr>gr_keyId = kv_id (uk_keyRecord result),
                     gr_rawKey = uk_rawKey result,
                     gr_userId = kv_userId (uk_keyRecord result),
                     gr_createdAt = kv_createdAt (uk_keyRecord result),
                     gr_expiresAt = kv_expiresAt (uk_keyRecord result),
                     gr_status = kv_status (uk_keyRecord result)\<rparr>, st1)))"

section \<open>KeyManagerService.createApiKey\<close>

text \<open>The request of \<^verbatim>\<open>createApiKey\<close>; \<open>None\<close> is a field that is \<^verbatim>\<open>undefined\<close> or
  \<^verbatim>\<open>null\<close>.\<close>

record create_dto =
  cd_user_id :: int
  cd_name :: string
  cd_expires_at :: "string option"
  cd_description :: "string option"
  cd_is_active :: "bool option"

record create_response =
  cr_key_id :: string
  cr_raw_key :: string
  cr_user_id :: int
  cr_client_id :: string
  cr_client_secret :: string
  cr_name :: string
  cr_description :: "string option"
  cr_is_active :: bool
  cr_created_at :: int
  cr_expires_at :: "int option"
  cr_status :: key_status

text \<open>\<^verbatim>\<open>saInfoRepo.findOne({where: {user_id, deleted_at: IsNull()}})\<close>.\<close>

definition find_sa_by_user :: "db \<Rightarrow> int \<Rightarrow> sa_info option" where
  "find_sa_by_user st user_id =
     find (\<lambda>a. sa_user_id a = user_id \<and> sa_deleted_at a = None) (sa_rows st)"

text \<open>\<^verbatim>\<open>saInfoRepo.save(saInfoRepo.create({user_id, client_secret, description,
  created_by}))\<close>: the store gives the row its id and its timestamps.\<close>

definition save_sa :: "env \<Rightarrow> db \<Rightarrow> int \<Rightarrow> string \<Rightarrow> string option \<Rightarrow> sa_info \<times> db" where
  "save_sa e st user_id clientSecret description =
     (let saved =
        \<lparr>sa_id = new_uuid e (uuids st),
         sa_user_id = user_id,
         sa_client_secret = clientSecret,
         sa_description = description,
         sa_created_at = now e,
         sa_created_by = Some ''key-manager-service'',
         sa_updated_at = now e,
         sa_updated_by = None,
         sa_deleted_at = None,
         sa_deleted_by = None\<rparr>
      in (saved, log_io SaSave (st\<lparr>sa_rows := sa_rows st @ [saved], uuids := uuids st + 1\<rparr>)))"

text \<open>Steps 1 and 2 of \<^verbatim>\<open>createApiKey\<close>: the owner's service account, found or
  created. The test of \<^verbatim>\<open>saInfo.deleted_at\<close> stands in the branch of a found row, as
  in the source.\<close>

definition resolve_sa :: "env \<Rightarrow> db \<Rightarrow> int \<Rightarrow> string option \<Rightarrow> (http_exception + sa_info) \<times> db" where
  "resolve_sa e st user_id description =
     (let st1 = log_io SaFindOne st in
      case find_sa_by_user st user_id of
        None \<Rightarrow>
          (let (clientSecret, st2) = generateRawKey e st1;
               (saInfo, st3) = save_sa e st2 user_id clientSecret description
           in (Inr saInfo, st3))
      | Some saInfo \<Rightarrow>
          if sa_deleted_at saInfo \<noteq> None then
            (Inl (HttpException 400 ''SERVICE_ACCOUNT_DELETED''), st1)
          else (Inr saInfo, st1))"

text \<open>The expiry of a create request: \<^verbatim>\<open>null\<close> for a falsy \<^verbatim>\<open>expires_at\<close>, else the
  parsed date, which must be valid and after now.\<close>

definition create_expiry :: "env \<Rightarrow> string option \<Rightarrow> http_exception + int option" where
  "create_expiry e expires_at =
     (if \<not> truthy_opt expires_at then Inr None
      else case parse_date e (case expires_at of None \<Rightarrow> [] | Some s \<Rightarrow> s) of
             None \<Rightarrow> Inl (HttpException 400 ''INVALID_EXPIRY_DATE'')
           | Some expiryDate \<Rightarrow>
               if expiryDate \<le> now e then Inl (HttpException 400 ''EXPIRY_DATE_PAST'')
               else Inr (Some expiryDate))"

text \<open>\<^verbatim>\<open>createApiKey\<close>. An \<^verbatim>\<open>HttpException\<close> is thrown on by the \<^verbatim>\<open>catch\<close>; any
  other error becomes \<^verbatim>\<open>KEY_CREATION_ERROR\<close>. What was written before the error
  stays written.\<close>

definition createApiKey ::
  "env \<Rightarrow> config \<Rightarrow> db \<Rightarrow> create_dto \<Rightarrow> (http_exception + create_response) \<times> db" where
  "createApiKey e cfg st createKeyDto =
     (let is_active = (case cd_is_active createKeyDto of None \<Rightarrow> True | Some b \<Rightarrow> b) in
      case create_expiry e (cd_expires_at createKeyDto) of
        Inl ex \<Rightarrow> (Inl ex, st)
      | Inr expiryDate \<Rightarrow>
          (case resolve_sa e st (cd_user_id createKeyDto) (cd_description createKeyDto) of
             (Inl ex, st1) \<Rightarrow> (Inl ex, st1)
           | (Inr saInfo, st1) \<Rightarrow>
               (case generateApiKey e cfg st1
                       \<lparr>gp_userId = sa_id saInfo,
                        gp_name = cd_name createKeyDto,
                        gp_description = cd_description createKeyDto,
                        gp_isActive = Some is_active,
                        gp_expiresAt = expiryDate\<rparr> of
                  (Inl err, st2) \<Rightarrow> (Inl (HttpException 500 ''KEY_CREATION_ERROR''), st2)
                | (Inr result, st2) \<Rightarrow>
                    (Inr \<lparr>cr_key_id = gr_keyId result,
                          cr_raw_key = gr_rawKey result,
                          cr_user_id = cd_user_id createKeyDto,
                          cr_client_id = sa_id saInfo,
                          cr_client_secret = sa_client_secret saInfo,
                          cr_name = cd_name createKeyDto,
                          cr_description =
                            (if truthy_opt (cd_description createKeyDto)
                             then cd_description createKeyDto else None),
                          cr_is_active = is_active,
                          cr_created_at = gr_createdAt result,
                          cr_expires_at = gr_expiresAt result,
                          cr_status = gr_status result\<rparr>, st2))))"

section \<open>JavaScript numbers\<close>

text \<open>
  The numbers of the pagination code and of \<^verbatim>\<open>parseInt\<close> are \<^verbatim>\<open>NaN\<close>, the two
  infinities and integers; \<open>Fin n\<close> is the double whose value is the integer \<open>n\<close>.
  An exact integer result becomes a number by rounding to the nearest double, ties to
  even, and to an infinity when the rounded value reaches \<open>2^1024\<close>. Minus zero is not
  told from zero.
\<close>

datatype js_number = NaN | PosInf | NegInf | Fin int

text \<open>The number of binary digits of a positive integer, and the rounding of a
  non-negative integer to a double (\<open>None\<close> is the overflow to infinity).\<close>

function bitlen :: "int \<Rightarrow> nat" where
  "bitlen n = (if n \<le> 0 then 0 else Suc (bitlen (n div 2)))"
  by pat_completeness auto
termination
  by (relation "measure nat") auto

declare bitlen.simps [simp del]

definition round_double :: "int \<Rightarrow> int option" where
  "round_double n =
     (if n < 2 ^ 53 then Some n
      else
        let e = bitlen n - 53;
            q = n div 2 ^ e;
            r = n mod 2 ^ e;
            h = 2 ^ (e - 1);
            q' = (if h < r \<or> (r = h \<and> odd q) then q + 1 else q)
        in if 2 ^ 1024 \<le> q' * 2 ^ e then None else Some (q' * 2 ^ e))"

definition number_of :: "int \<Rightarrow> js_number" where
  "number_of i =
     (case round_double \<bar>i\<bar> of
        None \<Rightarrow> if i < 0 then NegInf else PosInf
      | Some v \<Rightarrow> Fin (if i < 0 then - v else v))"

text \<open>\<open>a < b\<close> on numbers; false when either is \<^verbatim>\<open>NaN\<close>.\<close>

fun js_less :: "js_number \<Rightarrow> js_number \<Rightarrow> bool" where
  "js_less NaN b = False"
| "js_less a NaN = False"
| "js_less (Fin a) (Fin b) = (a < b)"
| "js_less PosInf b = False"
| "js_less a NegInf = False"
| "js_less a b = True"

definition Math_max :: "js_number \<Rightarrow> js_number \<Rightarrow> js_number" where
  "Math_max a b = (if a = NaN \<or> b = NaN then NaN else if js_less a b then b else a)"

definition Math_min :: "js_number \<Rightarrow> js_number \<Rightarrow> js_number" where
  "Math_min a b = (if a = NaN \<or> b = NaN then NaN else if js_less b a then b else a)"

fun js_negative :: "js_number \<Rightarrow> bool" where
  "js_negative NegInf = True"
| "js_negative (Fin n) = (n < 0)"
| "js_negative a = False"

text \<open>\<open>a - b\<close> and \<open>a * b\<close> on numbers.\<close>

fun js_minus :: "js_number \<Rightarrow> js_number \<Rightarrow> js_number" where
  "js_minus NaN b = NaN"
| "js_minus a NaN = NaN"
| "js_minus (Fin a) (Fin b) = number_of (a - b)"
| "js_minus PosInf PosInf = NaN"
| "js_minus NegInf NegInf = NaN"
| "js_minus PosInf b = PosInf"
| "js_minus NegInf b = NegInf"
| "js_minus a PosInf = NegInf"
| "js_minus a NegInf = PosInf"

fun js_times :: "js_number \<Rightarrow> js_number \<Rightarrow> js_number" where
  "js_times NaN b = NaN"
| "js_times a NaN = NaN"
| "js_times (Fin a) (Fin b) = number_of (a * b)"
| "js_times a b =
     (if a = Fin 0 \<or> b = Fin 0 then NaN
      else if js_negative a = js_negative b then PosInf
      else NegInf)"

section \<open>parseInt\<close>

text \<open>
  \<^verbatim>\<open>parseInt(s)\<close> without a radix: leading white space is skipped, a sign is read, a
  prefix \<^verbatim>\<open>0x\<close> or \<^verbatim>\<open>0X\<close> selects radix 16, and the longest run of digits of
  the radix is read; the result is \<^verbatim>\<open>NaN\<close> when there is no digit, else the number
  nearest to the signed value of the digits.
\<close>

definition digit_val :: "char \<Rightarrow> int" where
  "digit_val c =
     (let n = (of_char c :: int) in
      if 48 \<le> n \<and> n \<le> 57 then n - 48
      else if 97 \<le> n \<and> n \<le> 122 then n - 87
      else if 65 \<le> n \<and> n \<le> 90 then n - 55
      else 36)"

definition is_digit :: "int \<Rightarrow> char \<Rightarrow> bool" where
  "is_digit radix c = (digit_val c < radix)"

fun strip_sign :: "string \<Rightarrow> bool \<times> string" where
  "strip_sign [] = (False, [])"
| "strip_sign (c # cs) =
     (if c = CHR ''-'' then (True, cs)
      else if c = CHR ''+'' then (False, cs)
      else (False, c # cs))"

fun strip_prefix :: "string \<Rightarrow> int \<times> string" where
  "strip_prefix (a # b # cs) =
     (if a = CHR ''0'' \<and> (b = CHR ''x'' \<or> b = CHR ''X'') then (16, cs) else (10, a # b # cs))"
| "strip_prefix cs = (10, cs)"

definition parseInt :: "string \<Rightarrow> js_number" where
  "parseInt s =
     (let (neg, s1) = strip_sign (dropWhile is_ws s);
          (radix, s2) = strip_prefix s1;
          ds = takeWhile (is_digit radix) s2
      in if ds = [] then NaN
         else number_of ((if neg then - 1 else 1) *
                         foldl (\<lambda>a c. a * radix + digit_val c) 0 ds))"

section \<open>KeyManagerService.updateApiKey and removeKey\<close>

text \<open>\<^verbatim>\<open>apiKeyRepo.findOne({where: {id: parseInt(id)}})\<close>: \<open>Inl ()\<close> is the error of a
  store that refuses the id, \<open>Inr None\<close> is no row.\<close>

definition find_key_by_id :: "env \<Rightarrow> db \<Rightarrow> js_number \<Rightarrow> unit + api_key option" where
  "find_key_by_id e st i =
     (case i of
        Fin n \<Rightarrow> if key_id_ok e n then Inr (find (\<lambda>k. k_id k = n) (key_rows st)) else Inl ()
      | _ \<Rightarrow> Inl ())"

text \<open>\<^verbatim>\<open>apiKeyRepo.update(id, data)\<close>: the rows with this id get the given columns
  (here as a function on the row), and the store stamps \<^verbatim>\<open>updated_at\<close>.\<close>

definition update_key :: "env \<Rightarrow> db \<Rightarrow> js_number \<Rightarrow> (api_key \<Rightarrow> api_key) \<Rightarrow> db" where
  "update_key e st i upd =
     log_io KeyUpdate
       (st\<lparr>key_rows :=
             map (\<lambda>k. if Fin (k_id k) = i then (upd k)\<lparr>k_updated_at := now e\<rparr> else k)
               (key_rows st)\<rparr>)"

text \<open>The request of \<^verbatim>\<open>updateApiKey\<close>; \<open>None\<close> is a field that is \<^verbatim>\<open>undefined\<close>.\<close>

record update_dto =
  ud_name :: "string option"
  ud_description :: "string option"
  ud_expires_at :: "string option"
  ud_is_active :: "bool option"

record update_response =
  ur_key_id :: int
  ur_client_id :: string
  ur_name :: string
  ur_description :: "string option"
  ur_is_active :: bool
  ur_expires_at :: "int option"
  ur_status :: key_status
  ur_updated_at :: int

text \<open>The expiry of an update request: present (not \<^verbatim>\<open>undefined\<close>) means parsed,
  valid and after now.\<close>

definition update_expiry :: "env \<Rightarrow> string option \<Rightarrow> http_exception + int option" where
  "update_expiry e expires_at =
     (case expires_at of
        None \<Rightarrow> Inr None
      | Some s \<Rightarrow>
          (case parse_date e s of
             None \<Rightarrow> Inl (HttpException 400 ''INVALID_EXPIRY_DATE'')
           | Some expiryDate \<Rightarrow>
               if expiryDate \<le> now e then Inl (HttpException 400 ''EXPIRY_DATE_PAST'')
               else Inr (Some expiryDate)))"

text \<open>\<^verbatim>\<open>updateData\<close>, as the change it makes to a row.\<close>

definition updateData :: "update_dto \<Rightarrow> int option \<Rightarrow> api_key \<Rightarrow> api_key" where
  "updateData dto expiryDate k =
     (let k1 = (case ud_name dto of None \<Rightarrow> k | Some n \<Rightarrow> k\<lparr>k_name := n\<rparr>);
          k2 = (case ud_description dto of None \<Rightarrow> k1 | Some d \<Rightarrow> k1\<lparr>k_description := Some d\<rparr>);
          k3 = (case expiryDate of None \<Rightarrow> k2 | Some t \<Rightarrow> k2\<lparr>k_expiry_date := Some t\<rparr>);
          k4 = (case ud_is_active dto of None \<Rightarrow> k3 | Some b \<Rightarrow> k3\<lparr>k_is_active := b\<rparr>)
      in k4\<lparr>k_updated_by := Some ''key-manager-service''\<rparr>)"

definition updateApiKey ::
  "env \<Rightarrow> db \<Rightarrow> string \<Rightarrow> update_dto \<Rightarrow> (http_exception + update_response) \<times> db" where
  "updateApiKey e st id' updateKeyDto =
     (if \<not> truthy id' then (Inl (HttpException 400 ''MISSING_KEY_ID''), st)
      else if ud_name updateKeyDto = None \<and> ud_description updateKeyDto = None \<and>
              ud_expires_at updateKeyDto = None \<and> ud_is_active updateKeyDto = None then
        (Inl (HttpException 400 ''MISSING_UPDATE_FIELDS''), st)
      else
        let st1 = log_io KeyFindOneById st in
        case find_key_by_id e st (parseInt id') of
          Inl err \<Rightarrow> (Inl (HttpException 500 ''KEY_UPDATE_ERROR''), st1)
        | Inr None \<Rightarrow> (Inl (HttpException 404 ''KEY_NOT_FOUND''), st1)
        | Inr (Some existingKey) \<Rightarrow>
            (case update_expiry e (ud_expires_at updateKeyDto) of
               Inl ex \<Rightarrow> (Inl ex, st1)
             | Inr expiryDate \<Rightarrow>
                 let st2 = update_key e st1 (parseInt id') (updateData updateKeyDto expiryDate);
                     st3 = log_io KeyFindOneById st2
                 in case find_key_by_id e st2 (parseInt id') of
                      Inl err \<Rightarrow> (Inl (HttpException 500 ''KEY_UPDATE_ERROR''), st3)
                    | Inr None \<Rightarrow> (Inl (HttpException 500 ''KEY_UPDATE_ERROR''), st3)
                    | Inr (Some updatedKey) \<Rightarrow>
                        (Inr \<lparr>ur_key_id = k_id updatedKey,
                              ur_client_id = k_client_id updatedKey,
                              ur_name = k_name updatedKey,
                              ur_description = k_description updatedKey,
                              ur_is_active = k_is_active updatedKey,
                              ur_expires_at = k_expiry_date updatedKey,
                              ur_status = (if k_is_active updatedKey then Active else Inactive),
                              ur_updated_at = k_updated_at updatedKey\<rparr>, st3)))"

record remove_response =
  rr_key_id :: int
  rr_client_id :: string
  rr_status :: key_status
  rr_deleted_at :: "int option"
  rr_deleted_by :: "string option"

text \<open>\<^verbatim>\<open>removeKey(id, deletedBy = 'key-manager-service')\<close>.\<close>

definition removeKey ::
  "env \<Rightarrow> db \<Rightarrow> string \<Rightarrow> string option \<Rightarrow> (http_exception + remove_response) \<times> db" where
  "removeKey e st id' deletedBy_arg =
     (let deletedBy = (case deletedBy_arg of None \<Rightarrow> ''key-manager-service'' | Some d \<Rightarrow> d) in
      if \<not> truthy id' then (Inl (HttpException 400 ''MISSING_KEY_ID''), st)
      else
        let st1 = log_io KeyFindOneById st in
        case find_key_by_id e st (parseInt id') of
          Inl err \<Rightarrow> (Inl (HttpException 500 ''KEY_REMOVAL_ERROR''), st1)
        | Inr None \<Rightarrow> (Inl (HttpException 404 ''KEY_NOT_FOUND''), st1)
        | Inr (Some existingKey) \<Rightarrow>
            if k_deleted_at existingKey \<noteq> None then
              (Inl (HttpException 400 ''KEY_ALREADY_DELETED''), st1)
            else
              let st2 = update_key e st1 (parseInt id')
                          (\<lambda>k. k\<lparr>k_deleted_at := Some (now e),
                                  k_deleted_by := Some deletedBy,
                                  k_updated_by := Some deletedBy\<rparr>);
                  st3 = log_io KeyFindOneById st2
              in case find_key_by_id e st2 (parseInt id') of
                   Inl err \<Rightarrow> (Inl (HttpException 500 ''KEY_REMOVAL_ERROR''), st3)
                 | Inr None \<Rightarrow> (Inl (HttpException 500 ''KEY_REMOVAL_ERROR''), st3)
                 | Inr (Some deletedKey) \<Rightarrow>
                     (Inr \<lparr>rr_key_id = k_id deletedKey,
                           rr_client_id = k_client_id deletedKey,
                           rr_status = Deleted,
                           rr_deleted_at = k_deleted_at deletedKey,
                           rr_deleted_by = k_deleted_by deletedKey\<rparr>, st3))"

section \<open>KeyManagerService.listKeys\<close>

text \<open>
  \<^verbatim>\<open>query.page\<close> and \<^verbatim>\<open>query.limit\<close> may hold any value; the code uses such a value
  \<open>v\<close> through \<^verbatim>\<open>v || d\<close> and \<^verbatim>\<open>String(v)\<close> only, so a value is given by whether
  it is truthy and by the text \<^verbatim>\<open>String\<close> prints for it. The number 0 is
  \<open>JsValue False ''0''\<close>, the number 500 is \<open>JsValue True ''500''\<close>, and so is the
  string \<^verbatim>\<open>'500'\<close>; the string \<^verbatim>\<open>'0'\<close> is \<open>JsValue True ''0''\<close>.
\<close>

datatype js_value = JsValue (is_truthy: bool) (as_String: string)

text \<open>\<^verbatim>\<open>String(v || d)\<close>, given the text of the default \<open>d\<close>.\<close>

definition String_or :: "js_value option \<Rightarrow> string \<Rightarrow> string" where
  "String_or v d =
     (case v of
        None \<Rightarrow> d
      | Some x \<Rightarrow> if is_truthy x then as_String x else d)"

text \<open>\<^verbatim>\<open>Math.max(1, parseInt(String(query.page || 1)))\<close> and
  \<^verbatim>\<open>Math.min(100, Math.max(1, parseInt(String(query.limit || 10))))\<close>.\<close>

definition effective_page :: "js_value option \<Rightarrow> js_number" where
  "effective_page page = Math_max (Fin 1) (parseInt (String_or page ''1''))"

definition effective_limit :: "js_value option \<Rightarrow> js_number" where
  "effective_limit limit =
     Math_min (Fin 100) (Math_max (Fin 1) (parseInt (String_or limit ''10'')))"

record list_query =
  lq_page :: "js_value option"
  lq_limit :: "js_value option"
  lq_sort_by :: "string option"
  lq_sort_order :: "string option"
  lq_include_deleted :: "bool option"
  lq_client_id :: "string option"
  lq_status :: "string option"
  lq_search :: "string option"

record list_item =
  li_id :: int
  li_client_id :: string
  li_client_secret :: "string option"
  li_api_key :: string
  li_name :: string
  li_description :: "string option"
  li_created_at :: int
  li_expires_at :: "int option"
  li_status :: key_status
  li_deleted_at :: "int option"
  li_deleted_by :: "string option"

record pagination =
  pg_page :: int
  pg_limit :: int
  pg_total :: int
  pg_total_pages :: int
  pg_has_next :: bool
  pg_has_previous :: bool

record list_response =
  lr_keys :: "list_item list"
  lr_pagination :: pagination

text \<open>The \<^verbatim>\<open>WHERE\<close> clause the query builder collects. A comparison with a
  \<^verbatim>\<open>NULL\<close> column selects nothing.\<close>

definition status_filter :: "env \<Rightarrow> string option \<Rightarrow> api_key \<Rightarrow> bool" where
  "status_filter e status k =
     (case status of
        None \<Rightarrow> True
      | Some s \<Rightarrow>
          if \<not> truthy s then True
          else if s = ''active'' then
            k_is_active k \<and> (case k_expiry_date k of None \<Rightarrow> False | Some t \<Rightarrow> t > now e)
          else if s = ''inactive'' \<or> s = ''revoked'' then \<not> k_is_active k
          else if s = ''expired'' then
            (case k_expiry_date k of None \<Rightarrow> False | Some t \<Rightarrow> t \<le> now e)
          else True)"

definition search_filter :: "env \<Rightarrow> string option \<Rightarrow> api_key \<Rightarrow> bool" where
  "search_filter e search k =
     (case search of
        None \<Rightarrow> True
      | Some s \<Rightarrow>
          if \<not> truthy s then True
          else ilike e (k_name k) (''%'' @ s @ ''%'') \<or>
               (case k_description k of None \<Rightarrow> False | Some d \<Rightarrow> ilike e d (''%'' @ s @ ''%'')))"

definition list_where :: "env \<Rightarrow> list_query \<Rightarrow> api_key \<Rightarrow> bool" where
  "list_where e query k =
     ((if lq_include_deleted query = Some True then True else k_deleted_at k = None) \<and>
      (if truthy_opt (lq_client_id query) then Some (k_client_id k) = lq_client_id query else True) \<and>
      status_filter e (lq_status query) k \<and>
      search_filter e (lq_search query) k)"

text \<open>The status of a listed key. In \<^verbatim>\<open>key.expiry_date <= new Date()\<close> a
  \<^verbatim>\<open>null\<close> expiry is the number 0.\<close>

definition list_status :: "env \<Rightarrow> api_key \<Rightarrow> key_status" where
  "list_status e key =
     (if k_deleted_at key \<noteq> None then Deleted
      else if \<not> k_is_active key then Inactive
      else if (case k_expiry_date key of None \<Rightarrow> 0 | Some t \<Rightarrow> t) \<le> now e then Expired
      else Active)"

text \<open>One item of the response; \<^verbatim>\<open>service_account\<close> is the joined row.\<close>

definition list_item_of :: "env \<Rightarrow> db \<Rightarrow> api_key \<Rightarrow> list_item" where
  "list_item_of e st key =
     \<lparr>li_id = k_id key,
      li_client_id = k_client_id key,
      li_client_secret =
        map_option sa_client_secret (find (\<lambda>a. sa_id a = k_client_id key) (sa_rows st)),
      li_api_key = k_api_key key,
      li_name = k_name key,
      li_description = k_description key,
      li_created_at = k_created_at key,
      li_expires_at = k_expiry_date key,
      li_status = list_status e key,
      li_deleted_at = k_deleted_at key,
      li_deleted_by = k_deleted_by key\<rparr>"

definition allowedSortColumns :: "string list" where
  "allowedSortColumns = [''created_at'', ''updated_at'', ''expiry_date'', ''name'', ''is_active'']"

text \<open>\<^verbatim>\<open>Math.ceil(total / limit)\<close> for \<open>limit > 0\<close> (the quotient of a count below
  \<open>2^52\<close> is not rounded to an integer).\<close>

definition ceil_div :: "int \<Rightarrow> int \<Rightarrow> int" where
  "ceil_div total' limit = - ((- total') div limit)"

text \<open>\<^verbatim>\<open>listKeys\<close>. The count is taken first. Then \<^verbatim>\<open>orderBy\<close> throws for a
  direction other than \<^verbatim>\<open>ASC\<close> and \<^verbatim>\<open>DESC\<close>, \<^verbatim>\<open>skip\<close> and \<^verbatim>\<open>take\<close> throw for
  \<^verbatim>\<open>NaN\<close>, and the store refuses the query for an offset it does not accept. The
  \<^verbatim>\<open>catch\<close> turns every error into \<^verbatim>\<open>KEY_LISTING_ERROR\<close>.\<close>

definition listKeys :: "env \<Rightarrow> db \<Rightarrow> list_query \<Rightarrow> (http_exception + list_response) \<times> db" where
  "listKeys e st query =
     (let page = effective_page (lq_page query);
          limit = effective_limit (lq_limit query);
          skip = js_times (js_minus page (Fin 1)) limit;
          sortByColumn = (if truthy_opt (lq_sort_by query)
                          then (case lq_sort_by query of None \<Rightarrow> [] | Some c \<Rightarrow> c)
                          else ''created_at'');
          sortOrderDirection = (if truthy_opt (lq_sort_order query)
                                then (case lq_sort_order query of None \<Rightarrow> [] | Some d \<Rightarrow> d)
                                else ''DESC'');
          selected = filter (list_where e query) (key_rows st);
          total' = int (length selected);
          st1 = log_io KeyGetCount st;
          validSortColumn = (if sortByColumn \<in> set allowedSortColumns
                             then sortByColumn else ''created_at'')
      in if sortOrderDirection \<noteq> ''ASC'' \<and> sortOrderDirection \<noteq> ''DESC'' then
           (Inl (HttpException 500 ''KEY_LISTING_ERROR''), st1)
         else if skip = NaN \<or> limit = NaN then
           (Inl (HttpException 500 ''KEY_LISTING_ERROR''), st1)
         else
           let st2 = log_io KeyGetMany st1 in
           case (page, limit, skip) of
             (Fin p, Fin l, Fin s) \<Rightarrow>
               if \<not> offset_ok e s then (Inl (HttpException 500 ''KEY_LISTING_ERROR''), st2)
               else
                 (let keys = take (nat l)
                               (drop (nat s)
                                  (order_by e validSortColumn sortOrderDirection selected))
                  in (Inr \<lparr>lr_keys = map (list_item_of e st) keys,
                           lr_pagination =
                             \<lparr>pg_page = p,
                              pg_limit = l,
                              pg_total = total',
                              pg_total_pages = ceil_div total' l,
                              pg_has_next = (p < ceil_div total' l),
                              pg_has_previous = (p > 1)\<rparr>\<rparr>, st2))
           | _ \<Rightarrow> (Inl (HttpException 500 ''KEY_LISTING_ERROR''), st2))"

section \<open>The status classifier of the specification\<close>

text \<open>
  The specification derives the status of a key by one function of
  \<open>(deletedAt, isActive, expiryDate, now)\<close>: deleted if \<^verbatim>\<open>deleted_at\<close> is set, else
  inactive if \<^verbatim>\<open>is_active\<close> is false, else expired if \<^verbatim>\<open>expiry_date\<close> is non-null and
  at most now, else active. This definition follows those words; the source has no such
  function, and each response computes its status in place.
\<close>

definition spec_status :: "int option \<Rightarrow> bool \<Rightarrow> int option \<Rightarrow> int \<Rightarrow> key_status" where
  "spec_status deletedAt isActive expiryDate now' =
     (if deletedAt \<noteq> None then Deleted
      else if \<not> isActive then Inactive
      else if (case expiryDate of None \<Rightarrow> False | Some t \<Rightarrow> t \<le> now') then Expired
      else Active)"

section \<open>Concrete stores and requests\<close>

text \<open>An order for the two timestamp columns (the table's order for the others),
  reversed for \<^verbatim>\<open>DESC\<close>.\<close>

definition ex_order_by :: "string \<Rightarrow> string \<Rightarrow> api_key list \<Rightarrow> api_key list" where
  "ex_order_by column direction rows =
     (let sorted = (if column = ''created_at'' then sort_key k_created_at rows
                    else if column = ''updated_at'' then sort_key k_updated_at rows
                    else rows)
      in if direction = ''DESC'' then rev sorted else sorted)"

text \<open>Dates written as milliseconds.\<close>

definition ex_parse_date :: "string \<Rightarrow> int option" where
  "ex_parse_date s = (case parseInt s of Fin n \<Rightarrow> Some n | _ \<Rightarrow> None)"

text \<open>An environment at time 1000 whose \<open>n\<close>-th random token is \<open>key\<close> followed by
  \<open>n\<close>, and whose store has 32-bit key ids and 64-bit offsets.\<close>

definition ex_env :: env where
  "ex_env =
     \<lparr>now = 1000,
      random_b64 = (\<lambda>n. ''key'' @ toString (int n)),
      new_uuid = (\<lambda>n. ''sa'' @ toString (int n)),
      parse_date = ex_parse_date,
      ilike = (\<lambda>text pattern. False),
      order_by = ex_order_by,
      key_id_ok = (\<lambda>n. - (2 ^ 31) \<le> n \<and> n < 2 ^ 31),
      offset_ok = (\<lambda>n. n < 2 ^ 63)\<rparr>"

definition ex_sa :: sa_info where
  "ex_sa =
     \<lparr>sa_id = ''sa-1'', sa_user_id = 42, sa_client_secret = ''s3cret'',
      sa_description = None, sa_created_at = 10, sa_created_by = Some ''key-manager-service'',
      sa_updated_at = 10, sa_updated_by = None, sa_deleted_at = None, sa_deleted_by = None\<rparr>"

definition ex_key :: api_key where
  "ex_key =
     \<lparr>k_id = 1, k_client_id = ''sa-1'', k_api_key = ''abc'', k_name = ''first'',
      k_description = Some ''a key'', k_is_active = True, k_expiry_date = Some 1000,
      k_created_at = 20, k_created_by = Some ''key-generation-service'',
      k_updated_at = 20, k_updated_by = None, k_deleted_at = None, k_deleted_by = None\<rparr>"

definition ex_db :: db where
  "ex_db = \<lparr>sa_rows = [ex_sa], key_rows = [ex_key], next_key_id = 2, draws = 0, uuids = 0,
            io_log = []\<rparr>"

definition ex_deleted_key :: api_key where
  "ex_deleted_key = ex_key\<lparr>k_id := 7, k_api_key := ''old'', k_created_at := 30,
                           k_deleted_at := Some 900, k_deleted_by := Some ''admin''\<rparr>"

definition ex_db_removed :: db where
  "ex_db_removed = ex_db\<lparr>key_rows := [ex_key, ex_deleted_key]\<rparr>"

text \<open>A random source that returns the stored key \<open>abc\<close> at every draw.\<close>

definition ex_env_dup :: env where
  "ex_env_dup = ex_env\<lparr>random_b64 := (\<lambda>n. ''abc'')\<rparr>"

definition ex_dto :: create_dto where
  "ex_dto = \<lparr>cd_user_id = 42, cd_name = ''second'', cd_expires_at = None,
             cd_description = None, cd_is_active = None\<rparr>"

definition ex_query :: list_query where
  "ex_query = \<lparr>lq_page = None, lq_limit = None, lq_sort_by = None, lq_sort_order = None,
               lq_include_deleted = None, lq_client_id = None, lq_status = None,
               lq_search = None\<rparr>"

text \<open>A store whose only service account, of owner 42, is soft-deleted.\<close>

definition ex_db_deleted_owner :: db where
  "ex_db_deleted_owner =
     \<lparr>sa_rows = [ex_sa\<lparr>sa_deleted_at := Some 500, sa_deleted_by := Some ''admin''\<rparr>],
      key_rows = [], next_key_id = 1, draws = 0, uuids = 0, io_log = []\<rparr>"

text \<open>A store with an active key that expired at 500 and a soft-deleted key.\<close>

definition ex_expired_key :: api_key where
  "ex_expired_key = ex_key\<lparr>k_id := 3, k_api_key := ''xyz'', k_expiry_date := Some 500\<rparr>"

definition ex_db_status :: db where
  "ex_db_status = ex_db\<lparr>key_rows := [ex_expired_key, ex_deleted_key]\<rparr>"

definition ex_rename :: update_dto where
  "ex_rename = \<lparr>ud_name = Some ''renamed'', ud_description = None, ud_expires_at = None,
                ud_is_active = None\<rparr>"

section \<open>Basic facts\<close>

lemma log_io_fields [simp]:
  "key_rows (log_io ev st) = key_rows st"
  "sa_rows (log_io ev st) = sa_rows st"
  "draws (log_io ev st) = draws st"
  "uuids (log_io ev st) = uuids st"
  "next_key_id (log_io ev st) = next_key_id st"
  "io_log (log_io ev st) = io_log st @ [ev]"
  by (simp_all add: log_io_def)

lemma trim_blank: "(\<forall>c \<in> set s. is_ws c) \<Longrightarrow> trim s = []"
proof -
  assume "\<forall>c \<in> set s. is_ws c"
  then have h: "dropWhile is_ws s = []" by simp
  show ?thesis by (simp only: trim_def h rev.simps dropWhile.simps)
qed

lemma trim_blank_iff: "trim s = [] \<longleftrightarrow> (\<forall>c \<in> set s. is_ws c)"
proof
  assume t: "trim s = []"
  have "dropWhile is_ws s = []"
  proof (rule ccontr)
    assume ne: "dropWhile is_ws s \<noteq> []"
    then have "\<not> is_ws (hd (dropWhile is_ws s))" by (rule hd_dropWhile)
    moreover have "hd (dropWhile is_ws s) \<in> set (dropWhile is_ws s)" using ne by simp
    moreover from t have "\<forall>x \<in> set (dropWhile is_ws s). is_ws x"
      by (simp add: trim_def)
    ultimately show False by blast
  qed
  then show "\<forall>c \<in> set s. is_ws c" by simp
qed (rule trim_blank)

section \<open>Validation\<close>

text \<open>
  C10. A key to validate that is empty or all white space (exactly the strings whose
  \<^verbatim>\<open>trim()\<close> is empty, by \<open>trim_blank_iff\<close>) gets the invalid result with reason
  \<^verbatim>\<open>INVALID_FORMAT\<close>, and the store is returned as it was: no repository call is
  logged.
\<close>

theorem blank_key_invalid_format_no_io:
  assumes "\<forall>c \<in> set keyToValidate. is_ws c"
  shows "validateApiKey e st keyToValidate clientId =
           (createFailureResult e ''INVALID_FORMAT'' (now e), st)
         \<and> \<not> vr_isValid (fst (validateApiKey e st keyToValidate clientId))
         \<and> vr_reason (fst (validateApiKey e st keyToValidate clientId)) = Some ''INVALID_FORMAT''
         \<and> io_log (snd (validateApiKey e st keyToValidate clientId)) = io_log st"
  using assms by (simp add: validateApiKey_def trim_blank truthy_def createFailureResult_def)

theorem blank_key_invalid_format_no_io_witness:
  "is_ws (CHR '' '') \<and> is_ws (CHR 0x09)
   \<and> vr_reason (fst (validateApiKey ex_env ex_db [CHR '' '', CHR 0x09] (Some ''sa-1''))) = Some ''INVALID_FORMAT''
   \<and> \<not> vr_isValid (fst (validateApiKey ex_env ex_db [CHR '' '', CHR 0x09] (Some ''sa-1'')))
   \<and> snd (validateApiKey ex_env ex_db [CHR '' '', CHR 0x09] (Some ''sa-1'')) = ex_db"
proof -
  have ws: "\<forall>c \<in> set [CHR '' '', CHR 0x09]. is_ws c" by (simp add: is_ws_def)
  show ?thesis
    using blank_key_invalid_format_no_io [OF ws, of ex_env ex_db "Some ''sa-1''"] ws
    by (simp add: createFailureResult_def)
qed

text \<open>
  C7. A key found by validation whose expiry is at or before now, so in particular one
  whose expiry is now exactly, fails validation with \<^verbatim>\<open>KEY_EXPIRED\<close> and status 401:
  the comparison of \<^verbatim>\<open>validateExpiration\<close> is \<open>\<le>\<close>.
\<close>

theorem expiry_boundary_is_expired:
  assumes "truthy (trim keyToValidate)"
    and "find (\<lambda>r. keyToValidate = k_api_key r) (find_active_keys st clientId) = Some keyRecord"
    and "k_expiry_date keyRecord = Some t"
    and "t \<le> now e"
  shows "validateExpiration e (k_expiry_date keyRecord) =
           \<lparr>ev_isValid = False, ev_reason = ''KEY_EXPIRED''\<rparr>
       \<and> validateExpiration e (Some (now e)) =
           \<lparr>ev_isValid = False, ev_reason = ''KEY_EXPIRED''\<rparr>
       \<and> fst (validateApiKey e st keyToValidate clientId) =
           createFailureResult e ''KEY_EXPIRED'' 401"
proof -
  have act: "k_is_active keyRecord"
    using assms(2) by (auto simp: find_Some_iff find_active_keys_def dest: nth_mem)
  show ?thesis using assms act
    by (simp add: validateApiKey_def validateExpiration_def Let_def)
qed

theorem expiry_boundary_is_expired_witness:
  "truthy (trim ''abc'')
   \<and> find (\<lambda>r. ''abc'' = k_api_key r) (find_active_keys ex_db (Some ''sa-1'')) = Some ex_key
   \<and> k_expiry_date ex_key = Some (now ex_env)
   \<and> fst (validateApiKey ex_env ex_db ''abc'' (Some ''sa-1'')) =
       createFailureResult ex_env ''KEY_EXPIRED'' 401"
proof -
  have a: "truthy (trim ''abc'')" by (simp add: truthy_def trim_def is_ws_def)
  have b: "find (\<lambda>r. ''abc'' = k_api_key r) (find_active_keys ex_db (Some ''sa-1'')) = Some ex_key"
    by (simp add: find_active_keys_def ex_db_def ex_key_def truthy_def)
  have c: "k_expiry_date ex_key = Some 1000" by (simp add: ex_key_def)
  have d: "(1000::int) \<le> now ex_env" by (simp add: ex_env_def)
  show ?thesis
    using expiry_boundary_is_expired [OF a b c d] a b c by (simp add: ex_env_def)
qed

text \<open>
  C4. When the service account of the presented client id is found (so it is not
  deleted) and its secret is not the presented one, \<^verbatim>\<open>validateKey\<close> throws
  \<^verbatim>\<open>INVALID_CLIENT_SECRET\<close> with status 401 after the one read of the account. The
  outcome and the log are the same for every presented key and every content of the key
  table.
\<close>

theorem wrong_secret_hides_key_existence:
  assumes "find_sa_by_id st (vd_client_id dto) = Some saInfo"
    and "sa_client_secret saInfo \<noteq> vd_client_secret dto"
  shows "validateKey e st dto =
           (Inl (HttpException 401 ''INVALID_CLIENT_SECRET''), log_io SaFindOne st)
       \<and> fst (validateKey e (st\<lparr>key_rows := ks\<rparr>) (dto\<lparr>vd_api_key := k\<rparr>)) =
           fst (validateKey e st dto)
       \<and> io_log (snd (validateKey e (st\<lparr>key_rows := ks\<rparr>) (dto\<lparr>vd_api_key := k\<rparr>))) =
           io_log st @ [SaFindOne]"
  using assms by (simp add: validateKey_def find_sa_by_id_def log_io_def)

theorem wrong_secret_hides_key_existence_witness:
  "find_sa_by_id ex_db ''sa-1'' = Some ex_sa
   \<and> sa_client_secret ex_sa \<noteq> ''guess''
   \<and> fst (validateKey ex_env ex_db
        \<lparr>vd_client_id = ''sa-1'', vd_client_secret = ''guess'', vd_api_key = ''abc''\<rparr>) =
       Inl (HttpException 401 ''INVALID_CLIENT_SECRET'')
   \<and> fst (validateKey ex_env (ex_db\<lparr>key_rows := []\<rparr>)
        \<lparr>vd_client_id = ''sa-1'', vd_client_secret = ''guess'', vd_api_key = ''nokey''\<rparr>) =
       Inl (HttpException 401 ''INVALID_CLIENT_SECRET'')"
proof -
  have a: "find_sa_by_id ex_db
             (vd_client_id \<lparr>vd_client_id = ''sa-1'', vd_client_secret = ''guess'', vd_api_key = ''abc''\<rparr>)
           = Some ex_sa"
    by (simp add: find_sa_by_id_def ex_db_def ex_sa_def)
  have b: "sa_client_secret ex_sa \<noteq>
           vd_client_secret \<lparr>vd_client_id = ''sa-1'', vd_client_secret = ''guess'', vd_api_key = ''abc''\<rparr>"
    by (simp add: ex_sa_def)
  show ?thesis
    using wrong_secret_hides_key_existence [OF a b, of ex_env "[]" "''nokey''"] a b by simp
qed

section \<open>Facts about parseInt and the numbers\<close>

lemma parseInt_empty: "parseInt [] = NaN"
  by (simp add: parseInt_def)

lemma number_of_small: "\<bar>n\<bar> < 2 ^ 53 \<Longrightarrow> number_of n = Fin n"
  by (simp add: number_of_def round_double_def)

lemma Math_max_Fin: "Math_max (Fin a) (Fin b) = Fin (max a b)"
  by (simp add: Math_max_def max_def)

lemma Math_min_Fin: "Math_min (Fin a) (Fin b) = Fin (min a b)"
  by (simp add: Math_min_def min_def)

section \<open>Facts about the generator\<close>

lemma checkKeyExists_fst: "fst (checkKeyExists st k) = (k \<in> k_api_key ` set (key_rows st))"
  by (auto simp: checkKeyExists_def find_None_iff image_iff)

lemma checkKeyExists_snd: "snd (checkKeyExists st k) = log_io KeyFindOneByValue st"
  by (simp add: checkKeyExists_def)

lemma generateRawKey_fst: "fst (generateRawKey e st) = random_b64 e (draws st)"
  by (simp add: generateRawKey_def)

lemma generateRawKey_snd:
  "snd (generateRawKey e st) = log_io RandomBytes (st\<lparr>draws := draws st + 1\<rparr>)"
  by (simp add: generateRawKey_def)

lemma loop_draws:
  "draws (snd (generateUniqueKey_loop e cfg u n d a x attempt st)) \<le> draws st + (maxRetries cfg - attempt)"
proof (induction e cfg u n d a x attempt st rule: generateUniqueKey_loop.induct)
  case (1 e cfg userId name description isActive expiresAt attempt st)
  show ?case
  proof (cases "attempt < maxRetries cfg")
    case False
    then show ?thesis by (simp add: generateUniqueKey_loop.simps)
  next
    case lt: True
    show ?thesis
    proof (cases "fst (checkKeyExists (snd (generateRawKey e st)) (fst (generateRawKey e st)))")
      case False
      with lt show ?thesis
        by (subst generateUniqueKey_loop.simps)
           (simp add: Let_def createKeyRecord_def checkKeyExists_snd generateRawKey_snd)
    next
      case True
      from "1.IH"[OF lt] True
      have "draws (snd (generateUniqueKey_loop e cfg userId name description isActive expiresAt (attempt + 1)
              (snd (checkKeyExists (snd (generateRawKey e st)) (fst (generateRawKey e st))))))
            \<le> draws (snd (checkKeyExists (snd (generateRawKey e st)) (fst (generateRawKey e st))))
                + (maxRetries cfg - (attempt + 1))" by simp
      with lt True show ?thesis
        by (subst generateUniqueKey_loop.simps)
           (simp add: checkKeyExists_snd generateRawKey_snd)
    qed
  qed
qed

lemma loop_exhausted:
  "(\<forall>i < maxRetries cfg - attempt. random_b64 e (draws st + i) \<in> k_api_key ` set (key_rows st)) \<Longrightarrow>
   fst (generateUniqueKey_loop e cfg u n d a x attempt st) = Inl (UniqueKeyFailed (maxRetries cfg)) \<and>
   key_rows (snd (generateUniqueKey_loop e cfg u n d a x attempt st)) = key_rows st \<and>
   sa_rows (snd (generateUniqueKey_loop e cfg u n d a x attempt st)) = sa_rows st \<and>
   draws (snd (generateUniqueKey_loop e cfg u n d a x attempt st)) = draws st + (maxRetries cfg - attempt)"
proof (induction e cfg u n d a x attempt st rule: generateUniqueKey_loop.induct)
  case (1 e cfg userId name description isActive expiresAt attempt st)
  show ?case
  proof (cases "attempt < maxRetries cfg")
    case False
    then show ?thesis by (simp add: generateUniqueKey_loop.simps)
  next
    case lt: True
    let ?st1 = "snd (checkKeyExists (snd (generateRawKey e st)) (fst (generateRawKey e st)))"
    from lt "1.prems" have c0: "random_b64 e (draws st) \<in> k_api_key ` set (key_rows st)"
      by (metis add.right_neutral zero_less_diff)
    then have ex: "fst (checkKeyExists (snd (generateRawKey e st)) (fst (generateRawKey e st)))"
      by (simp add: checkKeyExists_fst generateRawKey_fst generateRawKey_snd)
    have st1: "key_rows ?st1 = key_rows st" "sa_rows ?st1 = sa_rows st" "draws ?st1 = draws st + 1"
      by (simp_all add: checkKeyExists_snd generateRawKey_snd)
    have "\<forall>i < maxRetries cfg - (attempt + 1). random_b64 e (draws ?st1 + i) \<in> k_api_key ` set (key_rows ?st1)"
    proof (intro allI impI)
      fix i assume "i < maxRetries cfg - (attempt + 1)"
      then have "Suc i < maxRetries cfg - attempt" by arith
      with "1.prems" have "random_b64 e (draws st + Suc i) \<in> k_api_key ` set (key_rows st)" by blast
      then show "random_b64 e (draws ?st1 + i) \<in> k_api_key ` set (key_rows ?st1)"
        by (simp add: st1)
    qed
    from "1.IH"[OF lt _ this] ex
    have ih: "fst (generateUniqueKey_loop e cfg userId name description isActive expiresAt (attempt + 1) ?st1)
                = Inl (UniqueKeyFailed (maxRetries cfg))"
         "key_rows (snd (generateUniqueKey_loop e cfg userId name description isActive expiresAt (attempt + 1) ?st1)) = key_rows ?st1"
         "sa_rows (snd (generateUniqueKey_loop e cfg userId name description isActive expiresAt (attempt + 1) ?st1)) = sa_rows ?st1"
         "draws (snd (generateUniqueKey_loop e cfg userId name description isActive expiresAt (attempt + 1) ?st1))
            = draws ?st1 + (maxRetries cfg - (attempt + 1))"
      by simp_all
    have step: "generateUniqueKey_loop e cfg userId name description isActive expiresAt attempt st
          = generateUniqueKey_loop e cfg userId name description isActive expiresAt (attempt + 1) ?st1"
      using lt ex by (subst generateUniqueKey_loop.simps) simp
    show ?thesis using ih lt unfolding step st1 by simp
  qed
qed

text \<open>A successful run appended exactly one row, the one whose fields the result shows.\<close>

lemma loop_success:
  "generateUniqueKey_loop e cfg u n d a x attempt st = (Inr r, st') \<Longrightarrow>
   \<exists>k. key_rows st' = key_rows st @ [k]
      \<and> sa_rows st' = sa_rows st
      \<and> k_api_key k = uk_rawKey r
      \<and> k_client_id k = u
      \<and> k_is_active k = a
      \<and> k_deleted_at k = None
      \<and> k_expiry_date k =
          Some (case x of Some t \<Rightarrow> t | None \<Rightarrow> now e + defaultExpiryDays cfg * 24 * 60 * 60 * 1000)
      \<and> kv_expiresAt (uk_keyRecord r) = k_expiry_date k
      \<and> kv_status (uk_keyRecord r) = (if a then Active else Inactive)
      \<and> uk_rawKey r \<notin> k_api_key ` set (key_rows st)"
proof (induction e cfg u n d a x attempt st rule: generateUniqueKey_loop.induct)
  case (1 e cfg userId name description isActive expiresAt attempt st)
  show ?case
  proof (cases "attempt < maxRetries cfg")
    case False
    with "1.prems" show ?thesis by (simp add: generateUniqueKey_loop.simps)
  next
    case lt: True
    let ?st1 = "snd (checkKeyExists (snd (generateRawKey e st)) (fst (generateRawKey e st)))"
    have st1: "key_rows ?st1 = key_rows st" "sa_rows ?st1 = sa_rows st"
      by (simp_all add: checkKeyExists_snd generateRawKey_snd)
    show ?thesis
    proof (cases "fst (checkKeyExists (snd (generateRawKey e st)) (fst (generateRawKey e st)))")
      case True
      with lt "1.prems"
      have "generateUniqueKey_loop e cfg userId name description isActive expiresAt (attempt + 1) ?st1
              = (Inr r, st')"
        by (subst (asm) generateUniqueKey_loop.simps) simp
      from "1.IH"[OF lt _ this] True show ?thesis by (simp add: st1)
    next
      case False
      then have fresh: "random_b64 e (draws st) \<notin> k_api_key ` set (key_rows st)"
        by (simp add: checkKeyExists_fst generateRawKey_fst generateRawKey_snd)
      from lt False "1.prems" show ?thesis
        apply (subst (asm) generateUniqueKey_loop.simps)
        apply (simp add: Let_def createKeyRecord_def checkKeyExists_snd generateRawKey_snd generateRawKey_fst)
        using fresh by (auto split: option.splits)
    qed
  qed
qed

section \<open>Removal\<close>

text \<open>
  C8. \<^verbatim>\<open>removeKey\<close> on the id of a stored key whose \<^verbatim>\<open>deleted_at\<close> is set throws
  \<^verbatim>\<open>KEY_ALREADY_DELETED\<close> (status 400) after the one read; both tables are as they
  were, so the row and its \<^verbatim>\<open>deleted_at\<close> are unchanged.
\<close>

theorem remove_already_deleted_unchanged:
  assumes "find_key_by_id e st (parseInt id') = Inr (Some existingKey)"
    and "k_deleted_at existingKey \<noteq> None"
  shows "removeKey e st id' deletedBy =
           (Inl (HttpException 400 ''KEY_ALREADY_DELETED''), log_io KeyFindOneById st)
       \<and> key_rows (snd (removeKey e st id' deletedBy)) = key_rows st
       \<and> sa_rows (snd (removeKey e st id' deletedBy)) = sa_rows st"
proof -
  have "id' \<noteq> []"
    using assms(1) by (auto simp: parseInt_empty find_key_by_id_def)
  then show ?thesis using assms by (simp add: removeKey_def truthy_def Let_def)
qed

theorem remove_already_deleted_unchanged_witness:
  "find_key_by_id ex_env ex_db_removed (parseInt ''7'') = Inr (Some ex_deleted_key)
   \<and> k_deleted_at ex_deleted_key = Some 900
   \<and> fst (removeKey ex_env ex_db_removed ''7'' (Some ''bob'')) =
       Inl (HttpException 400 ''KEY_ALREADY_DELETED'')
   \<and> key_rows (snd (removeKey ex_env ex_db_removed ''7'' (Some ''bob''))) = [ex_key, ex_deleted_key]"
proof -
  have p: "parseInt ''7'' = Fin 7"
    by (simp add: parseInt_def is_ws_def is_digit_def digit_val_def number_of_small)
  have a: "find_key_by_id ex_env ex_db_removed (parseInt ''7'') = Inr (Some ex_deleted_key)"
    by (simp add: p find_key_by_id_def ex_env_def ex_db_removed_def ex_db_def ex_key_def
                  ex_deleted_key_def)
  have b: "k_deleted_at ex_deleted_key \<noteq> None" by (simp add: ex_deleted_key_def)
  show ?thesis
    using remove_already_deleted_unchanged [OF a b, of "Some ''bob''"] a
    by (simp add: ex_deleted_key_def ex_db_removed_def)
qed

section \<open>Pagination\<close>

text \<open>What the two lines of \<^verbatim>\<open>listKeys\<close> do compute: a truthy value that
  \<^verbatim>\<open>parseInt\<close> reads as \<open>n\<close> gives the page \<open>max 1 n\<close> and the limit
  \<open>min 100 (max 1 n)\<close>; a missing or falsy value gives the defaults 1 and 10; and the
  limit is \<^verbatim>\<open>NaN\<close> or lies between 1 and 100.\<close>

lemma parseInt_defaults: "parseInt ''1'' = Fin 1" "parseInt ''10'' = Fin 10"
  by (simp_all add: parseInt_def is_ws_def is_digit_def digit_val_def number_of_small)

lemma effective_page_parsed:
  "is_truthy v \<Longrightarrow> parseInt (as_String v) = Fin n \<Longrightarrow> effective_page (Some v) = Fin (max 1 n)"
  by (simp add: effective_page_def String_or_def Math_max_Fin)

lemma effective_limit_parsed:
  "is_truthy v \<Longrightarrow> parseInt (as_String v) = Fin n \<Longrightarrow>
   effective_limit (Some v) = Fin (min 100 (max 1 n))"
  by (simp add: effective_limit_def String_or_def Math_max_Fin Math_min_Fin)

lemma effective_limit_falsy:
  "effective_limit None = Fin 10"
  "\<not> is_truthy v \<Longrightarrow> effective_limit (Some v) = Fin 10"
  by (simp_all add: effective_limit_def String_or_def parseInt_defaults Math_max_Fin Math_min_Fin)

lemma effective_page_falsy:
  "effective_page None = Fin 1"
  "\<not> is_truthy v \<Longrightarrow> effective_page (Some v) = Fin 1"
  by (simp_all add: effective_page_def String_or_def parseInt_defaults Math_max_Fin)

lemma effective_limit_range:
  "effective_limit l = NaN \<or> (\<exists>n. effective_limit l = Fin n \<and> 1 \<le> n \<and> n \<le> 100)"
  by (cases "parseInt (String_or l ''10'')")
     (auto simp: effective_limit_def Math_max_def Math_min_def)

text \<open>
  C9 at concrete requests. The claim's own examples hold: the limit \<^verbatim>\<open>'500'\<close> gives
  100 and the page 0 gives 1. The limit 0 as a number is falsy, so
  \<^verbatim>\<open>query.limit || 10\<close> replaces it by the default and the effective limit is 10,
  where clamping to the range from 1 to 100 gives 1 (as the string \<^verbatim>\<open>'0'\<close> does get).
  A limit that is no number, \<^verbatim>\<open>'abc'\<close>, stays \<^verbatim>\<open>NaN\<close> through \<^verbatim>\<open>Math.max\<close> and
  \<^verbatim>\<open>Math.min\<close>, is not clamped, and \<^verbatim>\<open>listKeys\<close> ends in the error
  \<^verbatim>\<open>KEY_LISTING_ERROR\<close>.
\<close>

theorem zero_limit_takes_default_and_nan_fails:
  "effective_limit (Some (JsValue True ''500'')) = Fin 100
   \<and> effective_page (Some (JsValue False ''0'')) = Fin 1
   \<and> effective_limit (Some (JsValue False ''0'')) = Fin 10
   \<and> pg_limit (lr_pagination (projr (fst
        (listKeys ex_env ex_db (ex_query\<lparr>lq_limit := Some (JsValue False ''0'')\<rparr>))))) = 10
   \<and> effective_limit (Some (JsValue True ''0'')) = Fin 1
   \<and> effective_limit (Some (JsValue True ''abc'')) = NaN
   \<and> fst (listKeys ex_env ex_db (ex_query\<lparr>lq_limit := Some (JsValue True ''abc'')\<rparr>))
       = Inl (HttpException 500 ''KEY_LISTING_ERROR'')"
  by code_simp

section \<open>Generation\<close>

text \<open>
  C5. With the configuration the service starts with, \<^verbatim>\<open>generateUniqueKey\<close> draws at
  most three tokens. When the three tokens it draws are all stored already, it throws the
  generation failure after exactly three draws and the key table is unchanged;
  \<^verbatim>\<open>generateApiKey\<close> throws the same error from the same final store, and
  \<^verbatim>\<open>createApiKey\<close> turns it into \<^verbatim>\<open>KEY_CREATION_ERROR\<close> (status 500) with no further
  draw: neither caller runs the generation again.
\<close>

theorem unique_key_retry_budget:
  "draws (snd (generateUniqueKey e default_config st userId name description isActive expiresAt))
     \<le> draws st + 3
   \<and> ((\<forall>i < 3. random_b64 e (draws st + i) \<in> k_api_key ` set (key_rows st)) \<longrightarrow>
        fst (generateUniqueKey e default_config st userId name description isActive expiresAt)
          = Inl (UniqueKeyFailed 3)
        \<and> key_rows (snd (generateUniqueKey e default_config st userId name description isActive expiresAt))
          = key_rows st
        \<and> draws (snd (generateUniqueKey e default_config st userId name description isActive expiresAt))
          = draws st + 3
        \<and> (validateGenerationInput e userId expiresAt = None \<longrightarrow>
             generateApiKey e default_config st
               \<lparr>gp_userId = userId, gp_name = name, gp_description = description,
                gp_isActive = Some isActive, gp_expiresAt = expiresAt\<rparr>
             = (Inl (UniqueKeyFailed 3),
                snd (generateUniqueKey e default_config st userId name description isActive expiresAt))))
   \<and> (create_expiry e (cd_expires_at dto) = Inr expiryDate \<longrightarrow>
       resolve_sa e st0 (cd_user_id dto) (cd_description dto) = (Inr saInfo, st) \<longrightarrow>
       validateGenerationInput e (sa_id saInfo) expiryDate = None \<longrightarrow>
       (\<forall>i < 3. random_b64 e (draws st + i) \<in> k_api_key ` set (key_rows st)) \<longrightarrow>
         fst (createApiKey e default_config st0 dto) = Inl (HttpException 500 ''KEY_CREATION_ERROR'')
         \<and> key_rows (snd (createApiKey e default_config st0 dto)) = key_rows st0
         \<and> draws (snd (createApiKey e default_config st0 dto)) = draws st + 3)"
proof -
  have mr: "maxRetries default_config = 3" by (simp add: default_config_def)
  have A: "draws (snd (generateUniqueKey e default_config st userId name description isActive expiresAt))
     \<le> draws st + 3"
    using loop_draws[of e default_config userId name description isActive expiresAt 0 st]
    by (simp add: generateUniqueKey_def mr)
  have B: "fst (generateUniqueKey e default_config s u n d a x) = Inl (UniqueKeyFailed 3)
        \<and> key_rows (snd (generateUniqueKey e default_config s u n d a x)) = key_rows s
        \<and> draws (snd (generateUniqueKey e default_config s u n d a x)) = draws s + 3"
    if "\<forall>i < 3. random_b64 e (draws s + i) \<in> k_api_key ` set (key_rows s)" for s u n d a x
    using loop_exhausted[of default_config 0 e s u n d a x] that
    by (simp add: generateUniqueKey_def mr)
  have C: "generateApiKey e default_config s
               \<lparr>gp_userId = u, gp_name = n, gp_description = d,
                gp_isActive = Some a, gp_expiresAt = x\<rparr>
             = (Inl (UniqueKeyFailed 3), snd (generateUniqueKey e default_config s u n d a x))"
    if "\<forall>i < 3. random_b64 e (draws s + i) \<in> k_api_key ` set (key_rows s)"
      and "validateGenerationInput e u x = None" for s u n d a x
  proof -
    obtain r s1 where eq: "generateUniqueKey e default_config s u n d a x = (r, s1)"
      by (cases "generateUniqueKey e default_config s u n d a x")
    with B[OF that(1), of u n d a x] have "r = Inl (UniqueKeyFailed 3)" by simp
    then show ?thesis using that(2) eq by (simp add: generateApiKey_def)
  qed
  have D: "fst (createApiKey e default_config st0 dto) = Inl (HttpException 500 ''KEY_CREATION_ERROR'')
         \<and> key_rows (snd (createApiKey e default_config st0 dto)) = key_rows st0
         \<and> draws (snd (createApiKey e default_config st0 dto)) = draws st + 3"
    if ce: "create_expiry e (cd_expires_at dto) = Inr expiryDate"
      and rs: "resolve_sa e st0 (cd_user_id dto) (cd_description dto) = (Inr saInfo, st)"
      and vg: "validateGenerationInput e (sa_id saInfo) expiryDate = None"
      and col: "\<forall>i < 3. random_b64 e (draws st + i) \<in> k_api_key ` set (key_rows st)"
  proof -
    have kr: "key_rows st = key_rows st0"
      using rs by (auto simp: resolve_sa_def save_sa_def generateRawKey_def Let_def
                        split: option.splits if_splits)
    show ?thesis
      using B[OF col] kr
      by (simp add: createApiKey_def ce rs C[OF col vg])
  qed
  from A B C D show ?thesis by blast
qed



theorem unique_key_retry_budget_witness:
  "random_b64 ex_env_dup 0 \<in> k_api_key ` set (key_rows ex_db)
   \<and> random_b64 ex_env_dup 1 \<in> k_api_key ` set (key_rows ex_db)
   \<and> random_b64 ex_env_dup 2 \<in> k_api_key ` set (key_rows ex_db)
   \<and> fst (generateUniqueKey ex_env_dup default_config ex_db ''sa-1'' ''second'' None True None)
       = Inl (UniqueKeyFailed 3)
   \<and> draws (snd (generateUniqueKey ex_env_dup default_config ex_db ''sa-1'' ''second'' None True None)) = 3
   \<and> fst (createApiKey ex_env_dup default_config ex_db ex_dto)
       = Inl (HttpException 500 ''KEY_CREATION_ERROR'')
   \<and> key_rows (snd (createApiKey ex_env_dup default_config ex_db ex_dto)) = [ex_key]
   \<and> draws (snd (createApiKey ex_env_dup default_config ex_db ex_dto)) = 3"
proof -
  have col: "\<forall>i < 3. random_b64 ex_env_dup (draws s + i) \<in> k_api_key ` set (key_rows s)"
    if "key_rows s = [ex_key]" for s
    using that by (simp add: ex_env_dup_def ex_key_def)
  have ce: "create_expiry ex_env_dup (cd_expires_at ex_dto) = Inr None"
    by (simp add: create_expiry_def ex_dto_def truthy_opt_def)
  have rs: "resolve_sa ex_env_dup ex_db (cd_user_id ex_dto) (cd_description ex_dto)
              = (Inr ex_sa, log_io SaFindOne ex_db)"
    by (simp add: resolve_sa_def find_sa_by_user_def ex_db_def ex_sa_def ex_dto_def)
  have vg: "validateGenerationInput ex_env_dup (sa_id ex_sa) None = None"
    by (simp add: validateGenerationInput_def ex_sa_def truthy_def trim_def is_ws_def)
  have k: "key_rows ex_db = [ex_key]" "draws ex_db = 0" by (simp_all add: ex_db_def)
  have k1: "key_rows (log_io SaFindOne ex_db) = [ex_key]" by (simp add: k)
  from unique_key_retry_budget
         [where e = ex_env_dup and st = ex_db and userId = "''sa-1''" and name = "''second''"
            and description = None and isActive = True and expiresAt = None]
       col[OF k(1)]
  have g: "fst (generateUniqueKey ex_env_dup default_config ex_db ''sa-1'' ''second'' None True None)
             = Inl (UniqueKeyFailed 3)
         \<and> draws (snd (generateUniqueKey ex_env_dup default_config ex_db ''sa-1'' ''second'' None True None)) = 3"
    by (simp add: k)
  from unique_key_retry_budget
         [where e = ex_env_dup and st = "log_io SaFindOne ex_db" and dto = ex_dto
            and expiryDate = None and ?st0.0 = ex_db and saInfo = ex_sa]
       ce rs vg col[OF k1]
  have c: "fst (createApiKey ex_env_dup default_config ex_db ex_dto)
             = Inl (HttpException 500 ''KEY_CREATION_ERROR'')
         \<and> key_rows (snd (createApiKey ex_env_dup default_config ex_db ex_dto)) = [ex_key]
         \<and> draws (snd (createApiKey ex_env_dup default_config ex_db ex_dto)) = 3"
    by (simp add: k)
  from g c col[OF k(1)] show ?thesis by (simp add: k)
qed

lemma resolve_sa_key_rows:
  "resolve_sa e st u d = (r, st1) \<Longrightarrow> key_rows st1 = key_rows st"
  by (auto simp: resolve_sa_def save_sa_def generateRawKey_def Let_def
           split: option.splits if_splits)

lemma generateApiKey_success:
  assumes "generateApiKey e cfg st params = (Inr result, st')"
  shows "\<exists>k. key_rows st' = key_rows st @ [k]
      \<and> sa_rows st' = sa_rows st
      \<and> k_api_key k = gr_rawKey result
      \<and> k_client_id k = gp_userId params
      \<and> k_deleted_at k = None
      \<and> k_expiry_date k =
          Some (case gp_expiresAt params of Some t \<Rightarrow> t
                | None \<Rightarrow> now e + defaultExpiryDays cfg * 24 * 60 * 60 * 1000)
      \<and> gr_expiresAt result = k_expiry_date k
      \<and> gr_status result = (if k_is_active k then Active else Inactive)
      \<and> gr_rawKey result \<notin> k_api_key ` set (key_rows st)"
proof -
  let ?a = "case gp_isActive params of None \<Rightarrow> True | Some b \<Rightarrow> b"
  from assms obtain r where
    loop: "generateUniqueKey_loop e cfg (gp_userId params) (gp_name params) (gp_description params)
             ?a (gp_expiresAt params) 0 st = (Inr r, st')"
    and res: "gr_rawKey result = uk_rawKey r" "gr_expiresAt result = kv_expiresAt (uk_keyRecord r)"
             "gr_status result = kv_status (uk_keyRecord r)"
    by (auto simp: generateApiKey_def generateUniqueKey_def Let_def
             split: option.splits prod.splits sum.splits)
  from loop_success[OF loop] res show ?thesis by auto
qed

text \<open>
  C6. A successful \<^verbatim>\<open>generateApiKey\<close> without an expiry, and a successful
  \<^verbatim>\<open>createApiKey\<close> whose \<^verbatim>\<open>expires_at\<close> is missing or empty, append one key row
  whose \<^verbatim>\<open>expiry_date\<close> is now plus 365 days, the value \<^verbatim>\<open>createKeyRecord\<close> stores
  for a \<^verbatim>\<open>null\<close> expiry; the response shows the same date.
\<close>

theorem default_expiry_one_year:
  "(gp_expiresAt params = None \<longrightarrow>
    generateApiKey e default_config st params = (Inr result, st') \<longrightarrow>
      (\<exists>k. key_rows st' = key_rows st @ [k]
         \<and> k_expiry_date k = Some (now e + 365 * 24 * 60 * 60 * 1000)
         \<and> gr_expiresAt result = k_expiry_date k))
   \<and> (\<not> truthy_opt (cd_expires_at dto) \<longrightarrow>
      createApiKey e default_config st dto = (Inr response, st') \<longrightarrow>
      (\<exists>k. key_rows st' = key_rows st @ [k]
         \<and> k_expiry_date k = Some (now e + 365 * 24 * 60 * 60 * 1000)
         \<and> cr_expires_at response = k_expiry_date k))
   \<and> k_expiry_date (fst (createKeyRecord e default_config st apiKey userId name description isActive None))
       = Some (now e + 365 * 24 * 60 * 60 * 1000)"
proof -
  have d: "defaultExpiryDays default_config = 365" by (simp add: default_config_def)
  have A: "\<exists>k. key_rows st' = key_rows st @ [k]
         \<and> k_expiry_date k = Some (now e + 365 * 24 * 60 * 60 * 1000)
         \<and> gr_expiresAt result = k_expiry_date k"
    if "gp_expiresAt params = None" "generateApiKey e default_config st params = (Inr result, st')"
    using generateApiKey_success[OF that(2)] that(1) by (auto simp: d)
  have B: "\<exists>k. key_rows st' = key_rows st @ [k]
         \<and> k_expiry_date k = Some (now e + 365 * 24 * 60 * 60 * 1000)
         \<and> cr_expires_at response = k_expiry_date k"
    if nt: "\<not> truthy_opt (cd_expires_at dto)"
      and cr: "createApiKey e default_config st dto = (Inr response, st')"
  proof -
    have ce: "create_expiry e (cd_expires_at dto) = Inr None"
      using nt by (simp add: create_expiry_def)
    from cr ce obtain saInfo st1 p result where
      rs: "resolve_sa e st (cd_user_id dto) (cd_description dto) = (Inr saInfo, st1)"
      and ga: "generateApiKey e default_config st1 p = (Inr result, st')"
      and p: "gp_expiresAt p = None"
      and r: "cr_expires_at response = gr_expiresAt result"
      by (auto simp: createApiKey_def Let_def split: prod.splits sum.splits)
    from generateApiKey_success[OF ga] p r resolve_sa_key_rows[OF rs]
    show ?thesis by (auto simp: d)
  qed
  have C: "k_expiry_date (fst (createKeyRecord e default_config st apiKey userId name description isActive None))
       = Some (now e + 365 * 24 * 60 * 60 * 1000)"
    by (simp add: createKeyRecord_def d Let_def)
  from A B C show ?thesis by blast
qed

theorem default_expiry_one_year_witness:
  "\<not> truthy_opt (cd_expires_at ex_dto)
   \<and> \<not> isl (fst (createApiKey ex_env default_config ex_db ex_dto))
   \<and> map k_expiry_date (key_rows (snd (createApiKey ex_env default_config ex_db ex_dto)))
       = [Some 1000, Some 31536001000]
   \<and> cr_expires_at (projr (fst (createApiKey ex_env default_config ex_db ex_dto)))
       = Some 31536001000"
proof -
  have nt: "\<not> truthy_opt (cd_expires_at ex_dto)" by (simp add: ex_dto_def truthy_opt_def)
  have ok: "\<not> isl (fst (createApiKey ex_env default_config ex_db ex_dto))" by code_simp
  then have cr: "createApiKey ex_env default_config ex_db ex_dto
           = (Inr (projr (fst (createApiKey ex_env default_config ex_db ex_dto))),
              snd (createApiKey ex_env default_config ex_db ex_dto))"
    by (metis prod.collapse sum.collapse(2))
  from default_expiry_one_year
         [where e = ex_env and st = ex_db and dto = ex_dto
            and response = "projr (fst (createApiKey ex_env default_config ex_db ex_dto))"
            and st' = "snd (createApiKey ex_env default_config ex_db ex_dto)"]
       nt cr
  obtain k where "key_rows (snd (createApiKey ex_env default_config ex_db ex_dto)) = key_rows ex_db @ [k]"
    "k_expiry_date k = Some (now ex_env + 365 * 24 * 60 * 60 * 1000)"
    "cr_expires_at (projr (fst (createApiKey ex_env default_config ex_db ex_dto))) = k_expiry_date k"
    by blast
  then show ?thesis using nt ok by (simp add: ex_db_def ex_key_def ex_env_def)
qed

section \<open>Service accounts of a deleted owner\<close>

text \<open>The lookup of \<^verbatim>\<open>createApiKey\<close> returns rows with \<^verbatim>\<open>deleted_at\<close> null only, so
  the test of \<^verbatim>\<open>saInfo.deleted_at\<close> on a found row never fires: an owner with deleted
  accounts only is an owner without an account.\<close>

lemma find_sa_by_user_not_deleted:
  "find_sa_by_user st u = Some a \<Longrightarrow> sa_deleted_at a = None"
  by (auto simp: find_sa_by_user_def find_Some_iff)

lemma find_sa_by_user_only_deleted:
  "(\<forall>a \<in> set (sa_rows st). sa_user_id a = u \<longrightarrow> sa_deleted_at a \<noteq> None) \<Longrightarrow>
   find_sa_by_user st u = None"
  by (auto simp: find_sa_by_user_def find_None_iff)

lemma resolve_sa_never_deleted:
  "fst (resolve_sa e st u d) \<noteq> Inl (HttpException 400 ''SERVICE_ACCOUNT_DELETED'')"
  by (auto simp: resolve_sa_def Let_def split: option.splits prod.splits
           dest: find_sa_by_user_not_deleted)

lemma createApiKey_never_service_account_deleted:
  "fst (createApiKey e cfg st dto) \<noteq> Inl (HttpException 400 ''SERVICE_ACCOUNT_DELETED'')"
proof -
  have "create_expiry e x \<noteq> Inl (HttpException 400 ''SERVICE_ACCOUNT_DELETED'')" for x
    by (auto simp: create_expiry_def split: option.splits)
  moreover note resolve_sa_never_deleted[of e st "cd_user_id dto" "cd_description dto"]
  ultimately show ?thesis
    by (auto simp: createApiKey_def Let_def split: sum.splits prod.splits)
qed

lemma resolve_sa_only_deleted_creates:
  assumes "\<forall>a \<in> set (sa_rows st). sa_user_id a = u \<longrightarrow> sa_deleted_at a \<noteq> None"
  shows "\<exists>a. fst (resolve_sa e st u d) = Inr a
           \<and> sa_rows (snd (resolve_sa e st u d)) = sa_rows st @ [a]
           \<and> sa_user_id a = u \<and> sa_deleted_at a = None"
  using find_sa_by_user_only_deleted[OF assms]
  by (simp add: resolve_sa_def save_sa_def generateRawKey_def Let_def)

text \<open>
  C1 at a concrete store: owner 42 has one service account, soft-deleted at 500. The
  request does not fail; a second account \<open>sa0\<close> of owner 42 is created beside the
  deleted one, and the new key belongs to it.
\<close>

theorem deleted_owner_gets_new_account:
  "map sa_deleted_at (sa_rows ex_db_deleted_owner) = [Some 500]
   \<and> \<not> isl (fst (createApiKey ex_env default_config ex_db_deleted_owner ex_dto))
   \<and> map sa_id (sa_rows (snd (createApiKey ex_env default_config ex_db_deleted_owner ex_dto)))
       = [''sa-1'', ''sa0'']
   \<and> map sa_user_id (sa_rows (snd (createApiKey ex_env default_config ex_db_deleted_owner ex_dto)))
       = [42, 42]
   \<and> map sa_deleted_at (sa_rows (snd (createApiKey ex_env default_config ex_db_deleted_owner ex_dto)))
       = [Some 500, None]
   \<and> cr_client_id (projr (fst (createApiKey ex_env default_config ex_db_deleted_owner ex_dto))) = ''sa0''
   \<and> map k_client_id (key_rows (snd (createApiKey ex_env default_config ex_db_deleted_owner ex_dto)))
       = [''sa0'']"
  by code_simp

section \<open>Displayed status\<close>

lemma list_status_spec:
  "k_expiry_date k \<noteq> None \<Longrightarrow>
   list_status e k = spec_status (k_deleted_at k) (k_is_active k) (k_expiry_date k) (now e)"
  by (auto simp: list_status_def spec_status_def)

lemma list_status_null_expiry:
  "k_deleted_at k = None \<Longrightarrow> k_is_active k \<Longrightarrow> k_expiry_date k = None \<Longrightarrow> 0 \<le> now e \<Longrightarrow>
   list_status e k = Expired \<and>
   spec_status (k_deleted_at k) (k_is_active k) (k_expiry_date k) (now e) = Active"
  by (simp add: list_status_def spec_status_def)

lemma create_status_spec:
  assumes "generateApiKey e default_config st params = (Inr result, st')"
  shows "\<exists>k. key_rows st' = key_rows st @ [k] \<and>
             gr_status result = spec_status (k_deleted_at k) (k_is_active k) (k_expiry_date k) (now e)"
proof -
  from generateApiKey_success[OF assms] obtain k where
    k: "key_rows st' = key_rows st @ [k]" "k_deleted_at k = None"
       "k_expiry_date k = Some (case gp_expiresAt params of Some t \<Rightarrow> t
                | None \<Rightarrow> now e + defaultExpiryDays default_config * 24 * 60 * 60 * 1000)"
       "gr_status result = (if k_is_active k then Active else Inactive)"
    by blast
  have "validateGenerationInput e (gp_userId params) (gp_expiresAt params) = None"
    using assms by (auto simp: generateApiKey_def Let_def split: option.splits)
  then have "case gp_expiresAt params of Some t \<Rightarrow> now e < t | None \<Rightarrow> True"
    by (auto simp: validateGenerationInput_def split: option.splits if_splits)
  then have "now e < (case gp_expiresAt params of Some t \<Rightarrow> t
                | None \<Rightarrow> now e + defaultExpiryDays default_config * 24 * 60 * 60 * 1000)"
    by (auto simp: default_config_def split: option.splits)
  with k show ?thesis by (auto simp: spec_status_def)
qed

lemma update_status_two_valued:
  "updateApiKey e st id' dto = (Inr response, st') \<Longrightarrow>
   ur_status response = (if ur_is_active response then Active else Inactive)"
  by (auto simp: updateApiKey_def Let_def split: if_splits option.splits sum.splits)

text \<open>
  C2 at a concrete store, time 1000. Key 3 is active, not deleted, and expired at 500:
  the classifier says expired, the update response says active (and shows the expiry
  500). Key 7 is soft-deleted: the classifier says deleted, the update response says
  active, and the row stays deleted. \<^verbatim>\<open>listKeys\<close> reports the same two rows, newest
  first, as deleted and expired.
\<close>

theorem update_status_ignores_expiry_and_deletion:
  "spec_status (k_deleted_at ex_expired_key) (k_is_active ex_expired_key)
       (k_expiry_date ex_expired_key) (now ex_env) = Expired
   \<and> ur_status (projr (fst (updateApiKey ex_env ex_db_status ''3'' ex_rename))) = Active
   \<and> ur_expires_at (projr (fst (updateApiKey ex_env ex_db_status ''3'' ex_rename))) = Some 500
   \<and> spec_status (k_deleted_at ex_deleted_key) (k_is_active ex_deleted_key)
       (k_expiry_date ex_deleted_key) (now ex_env) = Deleted
   \<and> ur_status (projr (fst (updateApiKey ex_env ex_db_status ''7'' ex_rename))) = Active
   \<and> map k_deleted_at (key_rows (snd (updateApiKey ex_env ex_db_status ''7'' ex_rename)))
       = [None, Some 900]
   \<and> map li_status (lr_keys (projr (fst (listKeys ex_env ex_db_status
        (ex_query\<lparr>lq_include_deleted := Some True\<rparr>))))) = [Deleted, Expired]"
  by code_simp

section \<open>The raw key in responses\<close>

lemma list_item_api_key: "li_api_key (list_item_of e st key) = k_api_key key"
  by (simp add: list_item_of_def)

text \<open>
  C3 at a concrete store: a key is created, its raw key \<open>key0\<close> is in the create
  response; \<^verbatim>\<open>listKeys\<close> on the resulting store returns the stored raw keys of both
  rows, \<open>key0\<close> among them, and the client secret with each.
\<close>

theorem list_returns_raw_key:
  "cr_raw_key (projr (fst (createApiKey ex_env default_config ex_db ex_dto))) = ''key0''
   \<and> map li_api_key (lr_keys (projr (fst
        (listKeys ex_env (snd (createApiKey ex_env default_config ex_db ex_dto)) ex_query))))
       = [''key0'', ''abc'']
   \<and> map li_client_secret (lr_keys (projr (fst
        (listKeys ex_env (snd (createApiKey ex_env default_config ex_db ex_dto)) ex_query))))
       = [Some ''s3cret'', Some ''s3cret'']"
  by code_simp

end
